theory Spec2Isabelle
  imports Complex_Main
begin

section \<open>The cutting guard of cutting\_utils.py\<close>

text \<open>
  The class \<open>CuttingGuard\<close> watches the contact results of a rigid body plant. Its
  constructor builds a dictionary from collision element ids to body indices and stores the
  blade configuration; its periodic publish handler \<open>_DoPublish\<close> walks over the contact
  list of one tick and prints an observation for every contact that involves the blade.

  The rigid body tree itself belongs to the physics engine. Only what the guard asks of it
  is modelled: the collision element ids of each body, the number of positions, and the two
  kinematics queries, which are taken as parameters. The plant, the publish period and the
  declaration of the two input ports are wiring of the simulator and are left out; the
  handler receives the values of the two ports, the state vector and the contact list, as
  arguments. The float64 arrays of numpy are rendered as real numbers.
\<close>

subsection \<open>Vectors and rigid transforms\<close>

datatype vec3 = Vec3 real real real

fun vneg :: "vec3 \<Rightarrow> vec3" where
  "vneg (Vec3 a b c) = Vec3 (- a) (- b) (- c)"

fun vadd :: "vec3 \<Rightarrow> vec3 \<Rightarrow> vec3" where
  "vadd (Vec3 a b c) (Vec3 a' b' c') = Vec3 (a + a') (b + b') (c + c')"

fun norm_sq :: "vec3 \<Rightarrow> real" where
  "norm_sq (Vec3 a b c) = a * a + b * b + c * c"

text \<open>A homogeneous transform is a 4 by 4 array, read by row and column.\<close>

type_synonym mat4 = "nat \<Rightarrow> nat \<Rightarrow> real"

text \<open>\<open>tf[0:3, 0:3].dot(v)\<close>\<close>

fun rot_dot :: "mat4 \<Rightarrow> vec3 \<Rightarrow> vec3" where
  "rot_dot tf (Vec3 a b c) =
     Vec3 (tf 0 0 * a + tf 0 1 * b + tf 0 2 * c)
          (tf 1 0 * a + tf 1 1 * b + tf 1 2 * c)
          (tf 2 0 * a + tf 2 1 * b + tf 2 2 * c)"

text \<open>\<open>tf[0:3, 3]\<close>\<close>

definition translation :: "mat4 \<Rightarrow> vec3" where
  "translation tf = Vec3 (tf 0 3) (tf 1 3) (tf 2 3)"

subsection \<open>The rigid body tree, as far as the guard uses it\<close>

record 'k rigid_body_tree =
  collision_element_ids :: "int list list"
  num_positions :: nat
  num_velocities :: nat
  doKinematics :: "real list \<Rightarrow> 'k"
  relativeTransform :: "'k \<Rightarrow> nat \<Rightarrow> nat \<Rightarrow> mat4"

definition get_num_bodies :: "'k rigid_body_tree \<Rightarrow> nat" where
  "get_num_bodies t = length (collision_element_ids t)"

subsection \<open>The guard and its constructor\<close>

datatype error = KeyError int | BodyIndexError nat

record 'k cutting_guard =
  rbt :: "'k rigid_body_tree"
  collision_id_to_body_index_map :: "int \<rightharpoonup> nat"
  cutting_body_index :: nat
  cutting_body_ids :: "int list"
  cut_direction :: vec3
  min_cut_force :: real
  blade_pts :: "vec3 \<times> vec3"
  blade_width :: real

text \<open>The inner loop of the constructor: every collision element id of body \<open>k\<close> is
  entered under \<open>k\<close>, a later entry replacing an earlier one.\<close>

fun register_body :: "(int \<rightharpoonup> nat) \<Rightarrow> nat \<Rightarrow> int list \<Rightarrow> (int \<rightharpoonup> nat)" where
  "register_body m k [] = m"
| "register_body m k (i # ids) = register_body (m(i \<mapsto> k)) k ids"

text \<open>The outer loop, \<open>for k in range(get_num_bodies())\<close>, with \<open>k\<close> counting up.\<close>

fun register_bodies :: "(int \<rightharpoonup> nat) \<Rightarrow> nat \<Rightarrow> int list list \<Rightarrow> (int \<rightharpoonup> nat)" where
  "register_bodies m k [] = m"
| "register_bodies m k (ids # rest) = register_bodies (register_body m k ids) (Suc k) rest"

text \<open>\<open>__init__\<close>. Asking the tree for a body it does not have fails.\<close>

definition CuttingGuard_init ::
  "'k rigid_body_tree \<Rightarrow> nat \<Rightarrow> vec3 \<Rightarrow> vec3 \<Rightarrow> vec3 \<Rightarrow> real \<Rightarrow> real \<Rightarrow> error + 'k cutting_guard" where
  "CuttingGuard_init t body_index blade_start_pt blade_stop_pt direction min_force width =
     (if body_index < get_num_bodies t
      then Inr \<lparr> rbt = t,
                 collision_id_to_body_index_map =
                   register_bodies Map.empty 0 (collision_element_ids t),
                 cutting_body_index = body_index,
                 cutting_body_ids = collision_element_ids t ! body_index,
                 cut_direction = direction,
                 min_cut_force = min_force,
                 blade_pts = (blade_start_pt, blade_stop_pt),
                 blade_width = width \<rparr>
      else Inl (BodyIndexError body_index))"

subsection \<open>One tick of the publish handler\<close>

record contact_info =
  element_id_1 :: int
  element_id_2 :: int
  force :: vec3
  application_point :: vec3

text \<open>What the handler writes. Line 74 writes the struck element id, the blade-local force
  and the blade-local point; line 75 writes its label and then the looked-up body index, so
  a failing lookup leaves the label behind.\<close>

datatype printed =
    GotPotentialCut int vec3 vec3
  | AndCutBodyIndex
  | BodyIndex nat

text \<open>Lines 59 to 66: which element was struck, and the force on it. \<open>None\<close> is Python's
  \<open>None\<close> left in \<open>cut_body_index\<close> when neither branch is taken.\<close>

definition select_cut :: "'k cutting_guard \<Rightarrow> contact_info \<Rightarrow> (int \<times> vec3) option" where
  "select_cut g c =
     (if element_id_1 c \<in> set (cutting_body_ids g) then Some (element_id_2 c, force c)
      else if element_id_2 c \<in> set (cutting_body_ids g)
           then Some (element_id_1 c, vneg (force c))
      else None)"

text \<open>Lines 70 and 71: the transform from the world (body 0) to the blade, from the position
  part \<open>x[0:num_positions]\<close> of the state.\<close>

definition blade_transform :: "'k cutting_guard \<Rightarrow> real list \<Rightarrow> mat4" where
  "blade_transform g x =
     (let kinsol = doKinematics (rbt g) (take (num_positions (rbt g)) x)
      in relativeTransform (rbt g) kinsol (cutting_body_index g) 0)"

text \<open>The complete observation of one contact.\<close>

definition report :: "int \<Rightarrow> vec3 \<Rightarrow> vec3 \<Rightarrow> nat \<Rightarrow> printed list" where
  "report elem body_force body_cut_pt k =
     [GotPotentialCut elem body_force body_cut_pt, AndCutBodyIndex, BodyIndex k]"

text \<open>The body of the loop, lines 57 to 75. The guard is threaded through, so that what the
  handler does to \<open>self\<close> is part of the result. Line 67 tests \<open>cut_body_index\<close> for
  truth: \<open>None\<close> and the integer 0 are both false.\<close>

definition publish_contact ::
  "'k cutting_guard \<Rightarrow> real list \<Rightarrow> contact_info \<Rightarrow> 'k cutting_guard \<times> printed list \<times> error option" where
  "publish_contact g x c =
     (case select_cut g c of
        None \<Rightarrow> (g, [], None)
      | Some (cut_body_index, cut_force) \<Rightarrow>
          if cut_body_index \<noteq> 0 then
            (let tf = blade_transform g x;
                 body_force = rot_dot tf cut_force;
                 body_cut_pt = vadd (rot_dot tf (application_point c)) (translation tf)
             in case collision_id_to_body_index_map g cut_body_index of
                  Some k \<Rightarrow> (g, report cut_body_index body_force body_cut_pt k, None)
                | None \<Rightarrow>
                    (g, [GotPotentialCut cut_body_index body_force body_cut_pt, AndCutBodyIndex],
                     Some (KeyError cut_body_index)))
          else (g, [], None))"

text \<open>The loop over the contacts of the tick; an exception ends it.\<close>

fun publish_loop ::
  "'k cutting_guard \<Rightarrow> real list \<Rightarrow> contact_info list \<Rightarrow> 'k cutting_guard \<times> printed list \<times> error option" where
  "publish_loop g x [] = (g, [], None)"
| "publish_loop g x (c # cs) =
     (case publish_contact g x c of
        (g', out, Some e) \<Rightarrow> (g', out, Some e)
      | (g', out, None) \<Rightarrow>
          (case publish_loop g' x cs of (g'', out', r) \<Rightarrow> (g'', out @ out', r)))"

definition DoPublish ::
  "'k cutting_guard \<Rightarrow> real list \<Rightarrow> contact_info list \<Rightarrow> 'k cutting_guard \<times> printed list \<times> error option" where
  "DoPublish g x contact_results = publish_loop g x contact_results"

text \<open>What one call wrote and whether it raised, without the guard.\<close>

definition outcome ::
  "'k cutting_guard \<times> printed list \<times> error option \<Rightarrow> printed list \<times> error option" where
  "outcome r = snd r"

subsection \<open>A small setup: a blade with elements 10 and 11, a block with element 20\<close>

text \<open>The blade frame slides along the z axis with the first position: the transform is the
  identity rotation translated by minus that position.\<close>

definition slide_tf :: "real list \<Rightarrow> mat4" where
  "slide_tf q = (\<lambda>i j. if i = j then 1
                        else if i = 2 \<and> j = 3 then (case q of [] \<Rightarrow> 0 | z # _ \<Rightarrow> - z)
                        else 0)"

definition demo_tree :: "int list list \<Rightarrow> (real list) rigid_body_tree" where
  "demo_tree ids = \<lparr> collision_element_ids = ids, num_positions = 1, num_velocities = 1,
                      doKinematics = (\<lambda>q. q),
                      relativeTransform = (\<lambda>kinsol body base. slide_tf kinsol) \<rparr>"

definition demo_guard :: "int list list \<Rightarrow> (real list) cutting_guard" where
  "demo_guard ids =
     \<lparr> rbt = demo_tree ids,
       collision_id_to_body_index_map = register_bodies Map.empty 0 ids,
       cutting_body_index = 0,
       cutting_body_ids = ids ! 0,
       cut_direction = Vec3 1 0 0,
       min_cut_force = 5,
       blade_pts = (Vec3 0 0 0, Vec3 1 0 0),
       blade_width = 1 / 100 \<rparr>"

definition blade_and_block :: "(real list) cutting_guard" where
  "blade_and_block = demo_guard [[10, 11], [20]]"

definition contact :: "int \<Rightarrow> int \<Rightarrow> vec3 \<Rightarrow> vec3 \<Rightarrow> contact_info" where
  "contact e1 e2 f p =
     \<lparr> element_id_1 = e1, element_id_2 = e2, force = f, application_point = p \<rparr>"

text \<open>The same setup with the block's collision element numbered 0.\<close>

definition blade_and_zero_block :: "(real list) cutting_guard" where
  "blade_and_zero_block = demo_guard [[10, 11], [0]]"



text \<open>A blade and two blocks, the first block's collision element numbered 0.\<close>

definition blade_and_two_blocks :: "(real list) cutting_guard" where
  "blade_and_two_blocks = demo_guard [[10, 11], [0], [20]]"

subsection \<open>Vocabulary for the properties\<close>

text \<open>The same contact reported with its two elements in the other order, the force
  vector kept.\<close>

definition swap_elements :: "contact_info \<Rightarrow> contact_info" where
  "swap_elements c = c\<lparr> element_id_1 := element_id_2 c, element_id_2 := element_id_1 c \<rparr>"

section \<open>Properties\<close>

subsection \<open>Basic facts\<close>

lemma demo_guard_is_constructed:
  "CuttingGuard_init (demo_tree [[10, 11], [20]]) 0 (Vec3 0 0 0) (Vec3 1 0 0) (Vec3 1 0 0) 5 (1 / 100)
     = Inr blade_and_block"
  by (simp add: CuttingGuard_init_def get_num_bodies_def demo_tree_def blade_and_block_def
      demo_guard_def)

lemma zero_block_guard_is_constructed:
  "CuttingGuard_init (demo_tree [[10, 11], [0]]) 0 (Vec3 0 0 0) (Vec3 1 0 0) (Vec3 1 0 0) 5 (1 / 100)
     = Inr blade_and_zero_block"
  by (simp add: CuttingGuard_init_def get_num_bodies_def demo_tree_def blade_and_zero_block_def
      demo_guard_def)

lemma publish_contact_guard: "fst (publish_contact g x c) = g"
  by (simp add: publish_contact_def Let_def split: option.split prod.split)

lemma publish_loop_guard: "fst (publish_loop g x cs) = g"
proof (induction cs)
  case Nil
  show ?case by simp
next
  case (Cons c cs)
  obtain out r where pc: "publish_contact g x c = (g, out, r)"
    using publish_contact_guard [of g x c] by (cases "publish_contact g x c") auto
  obtain out' r' where pl: "publish_loop g x cs = (g, out', r')"
    using Cons.IH by (cases "publish_loop g x cs") auto
  show ?case by (cases r) (simp_all add: pc pl)
qed

lemma publish_contact_skip:
  "select_cut g c = None \<Longrightarrow> publish_contact g x c = (g, [], None)"
  by (simp add: publish_contact_def)

lemma publish_loop_skip:
  "publish_contact g x c = (g, [], None) \<Longrightarrow> publish_loop g x (c # cs) = publish_loop g x cs"
  by (cases "publish_loop g x cs") simp

lemma publish_loop_append_ok:
  "publish_loop g x cs = (g, out, None) \<Longrightarrow>
   publish_loop g x (cs @ cs') =
     (case publish_loop g x cs' of (g', out', r) \<Rightarrow> (g', out @ out', r))"
proof (induction cs arbitrary: out)
  case Nil
  then show ?case by (cases "publish_loop g x cs'") simp
next
  case (Cons c cs)
  obtain o1 r1 where pc: "publish_contact g x c = (g, o1, r1)"
    using publish_contact_guard [of g x c] by (cases "publish_contact g x c") auto
  obtain o2 r2 where pl: "publish_loop g x cs = (g, o2, r2)"
    using publish_loop_guard [of g x cs] by (cases "publish_loop g x cs") auto
  from Cons.prems pc pl have r1: "r1 = None" by (cases r1) simp_all
  from Cons.prems pc pl r1 have r2: "r2 = None" and out: "out = o1 @ o2" by simp_all
  from Cons.IH [of o2] pl r2
  have ih: "publish_loop g x (cs @ cs') =
      (case publish_loop g x cs' of (g', out', r) \<Rightarrow> (g', o2 @ out', r))" by simp
  show ?case
    by (cases "publish_loop g x cs'") (simp add: pc r1 ih out)
qed

lemma publish_loop_append_raise:
  "publish_loop g x cs = (g, out, Some e) \<Longrightarrow> publish_loop g x (cs @ cs') = (g, out, Some e)"
proof (induction cs arbitrary: out)
  case Nil
  then show ?case by simp
next
  case (Cons c cs)
  obtain o1 r1 where pc: "publish_contact g x c = (g, o1, r1)"
    using publish_contact_guard [of g x c] by (cases "publish_contact g x c") auto
  obtain o2 r2 where pl: "publish_loop g x cs = (g, o2, r2)"
    using publish_loop_guard [of g x cs] by (cases "publish_loop g x cs") auto
  show ?case
  proof (cases r1)
    case (Some e1)
    with Cons.prems pc show ?thesis by simp
  next
    case None
    with Cons.prems pc pl have r2: "r2 = Some e" and out: "out = o1 @ o2" by simp_all
    from Cons.IH [of o2] pl r2 have "publish_loop g x (cs @ cs') = (g, o2, Some e)" by simp
    with pc None out show ?thesis by simp
  qed
qed

lemma publish_loop_drop:
  assumes "publish_contact g x c = (g, [], None)"
  shows "publish_loop g x (cs @ c # cs') = publish_loop g x (cs @ cs')"
proof -
  obtain out r where pl: "publish_loop g x cs = (g, out, r)"
    using publish_loop_guard [of g x cs] by (cases "publish_loop g x cs") auto
  show ?thesis
  proof (cases r)
    case None
    have sk: "publish_loop g x (c # cs') = publish_loop g x cs'"
      by (rule publish_loop_skip [OF assms])
    from None pl have ok: "publish_loop g x cs = (g, out, None)" by simp
    show ?thesis
      by (simp only: publish_loop_append_ok [OF ok] sk)
  next
    case (Some e)
    with pl publish_loop_append_raise [of g x cs out e] show ?thesis by simp
  qed
qed

lemma blade_transform_positions:
  "take (num_positions (rbt g)) x = take (num_positions (rbt g)) x' \<Longrightarrow>
   blade_transform g x = blade_transform g x'"
  by (simp add: blade_transform_def)

lemma publish_contact_positions:
  "take (num_positions (rbt g)) x = take (num_positions (rbt g)) x' \<Longrightarrow>
   publish_contact g x c = publish_contact g x' c"
proof -
  assume "take (num_positions (rbt g)) x = take (num_positions (rbt g)) x'"
  then have bt: "blade_transform g x = blade_transform g x'"
    by (rule blade_transform_positions)
  show ?thesis by (simp only: publish_contact_def bt)
qed

lemma publish_loop_positions:
  assumes "take (num_positions (rbt g)) x = take (num_positions (rbt g)) x'"
  shows "publish_loop g x cs = publish_loop g x' cs"
proof (induction cs)
  case Nil
  show ?case by simp
next
  case (Cons c cs)
  obtain o1 r1 where pc: "publish_contact g x c = (g, o1, r1)"
    using publish_contact_guard [of g x c] by (cases "publish_contact g x c") auto
  with publish_contact_positions [OF assms, of c]
  have pc': "publish_contact g x' c = (g, o1, r1)" by simp
  show ?case by (cases r1) (simp_all add: pc pc' Cons.IH)
qed

lemma vneg_vneg: "vneg (vneg v) = v"
  by (cases v) simp

lemma norm_sq_vneg: "norm_sq (vneg v) = norm_sq v"
  by (cases v) simp

lemma publish_contact_zero:
  "select_cut g c = Some (0, f) \<Longrightarrow> publish_contact g x c = (g, [], None)"
  by (simp add: publish_contact_def)

lemma publish_contact_report:
  assumes "select_cut g c = Some (s, f)" and "s \<noteq> 0"
    and "collision_id_to_body_index_map g s = Some k"
  shows "publish_contact g x c =
     (g, report s (rot_dot (blade_transform g x) f)
           (vadd (rot_dot (blade_transform g x) (application_point c))
                 (translation (blade_transform g x))) k, None)"
  using assms by (simp add: publish_contact_def Let_def)

lemma publish_contact_raise:
  assumes "select_cut g c = Some (s, f)" and "s \<noteq> 0"
    and "collision_id_to_body_index_map g s = None"
  shows "publish_contact g x c =
     (g, [GotPotentialCut s (rot_dot (blade_transform g x) f)
           (vadd (rot_dot (blade_transform g x) (application_point c))
                 (translation (blade_transform g x))), AndCutBodyIndex], Some (KeyError s))"
  using assms by (simp add: publish_contact_def Let_def)


lemma select_cut_config:
  "select_cut (g\<lparr> cut_direction := d, min_cut_force := m \<rparr>) c = select_cut g c"
  by (simp add: select_cut_def)

lemma blade_transform_config:
  "blade_transform (g\<lparr> cut_direction := d, min_cut_force := m \<rparr>) x = blade_transform g x"
  by (simp add: blade_transform_def)

lemma publish_contact_config:
  "snd (publish_contact (g\<lparr> cut_direction := d, min_cut_force := m \<rparr>) x c)
     = snd (publish_contact g x c)"
  by (simp add: publish_contact_def select_cut_config blade_transform_config Let_def
      split: option.split prod.split)

lemma publish_loop_cong:
  assumes "\<And>c. snd (publish_contact g1 x c) = snd (publish_contact g2 x c)"
  shows "snd (publish_loop g1 x cs) = snd (publish_loop g2 x cs)"
proof (induction cs)
  case Nil
  show ?case by simp
next
  case (Cons c cs)
  obtain o1 r1 where pc1: "publish_contact g1 x c = (g1, o1, r1)"
    using publish_contact_guard [of g1 x c] by (cases "publish_contact g1 x c") auto
  with assms [of c] publish_contact_guard [of g2 x c]
  have pc2: "publish_contact g2 x c = (g2, o1, r1)"
    by (cases "publish_contact g2 x c") auto
  obtain o2 r2 where pl1: "publish_loop g1 x cs = (g1, o2, r2)"
    using publish_loop_guard [of g1 x cs] by (cases "publish_loop g1 x cs") auto
  with Cons.IH publish_loop_guard [of g2 x cs]
  have pl2: "publish_loop g2 x cs = (g2, o2, r2)"
    by (cases "publish_loop g2 x cs") auto
  show ?case by (cases r1) (simp_all add: pc1 pc2 pl1 pl2)
qed

lemma struck_body_is_registry_entry:
  assumes "(element_id_1 c \<in> set (cutting_body_ids g) \<and> element_id_2 c \<notin> set (cutting_body_ids g)
              \<and> other = element_id_2 c)
         \<or> (element_id_2 c \<in> set (cutting_body_ids g) \<and> element_id_1 c \<notin> set (cutting_body_ids g)
              \<and> other = element_id_1 c)"
    and "other \<noteq> 0" and "collision_id_to_body_index_map g other = Some k"
  shows "\<exists>F P. publish_contact g x c = (g, report other F P k, None)"
proof -
  from assms(1) have "\<exists>f. select_cut g c = Some (other, f)"
    by (auto simp add: select_cut_def)
  then obtain f where "select_cut g c = Some (other, f)" ..
  from publish_contact_report [OF this assms(2) assms(3), of x] show ?thesis by blast
qed

lemma unknown_element_aborts_tick:
  assumes "select_cut g c = Some (s, f)" and "s \<noteq> 0"
    and "collision_id_to_body_index_map g s = None"
    and "snd (snd (publish_loop g x cs)) = None"
  shows "snd (snd (DoPublish g x (cs @ c # cs'))) = Some (KeyError s)"
proof -
  obtain out where pl: "publish_loop g x cs = (g, out, None)"
    using publish_loop_guard [of g x cs] assms(4) by (cases "publish_loop g x cs") auto
  have "publish_loop g x (c # cs') = publish_contact g x c"
    by (simp add: publish_contact_raise [OF assms(1) assms(2) assms(3)])
  then show ?thesis
    by (simp add: DoPublish_def publish_loop_append_ok [OF pl]
        publish_contact_raise [OF assms(1) assms(2) assms(3)])
qed

lemma thresholds_never_read:
  "outcome (DoPublish (g\<lparr> cut_direction := d, min_cut_force := m \<rparr>) x cs)
     = outcome (DoPublish g x cs)"
  unfolding outcome_def DoPublish_def
  by (rule publish_loop_cong) (rule publish_contact_config)

lemma constructor_stores_configuration:
  assumes "b < get_num_bodies t"
  shows "\<exists>g'. CuttingGuard_init t b p1 p2 d m w = Inr g' \<and> cut_direction g' = d \<and>
           min_cut_force g' = m \<and> blade_pts g' = (p1, p2) \<and> blade_width g' = w \<and>
           cutting_body_index g' = b"
  using assms by (simp add: CuttingGuard_init_def)

lemma reached_contact_is_reported:
  assumes "snd (snd (publish_loop g x pre)) = None"
    and "select_cut g c = Some (s, f)" and "s \<noteq> 0"
    and "collision_id_to_body_index_map g s = Some k"
  shows "outcome (DoPublish g x (pre @ c # post)) =
     (fst (outcome (DoPublish g x pre)) @
      report s (rot_dot (blade_transform g x) f)
        (vadd (rot_dot (blade_transform g x) (application_point c))
              (translation (blade_transform g x))) k @
      fst (outcome (DoPublish g x post)), snd (outcome (DoPublish g x post)))"
proof -
  obtain out where pl: "publish_loop g x pre = (g, out, None)"
    using publish_loop_guard [of g x pre] assms(1) by (cases "publish_loop g x pre") auto
  obtain out' r where po: "publish_loop g x post = (g, out', r)"
    using publish_loop_guard [of g x post] by (cases "publish_loop g x post") auto
  show ?thesis
    by (simp add: outcome_def DoPublish_def publish_loop_append_ok [OF pl] pl po
        publish_contact_report [OF assms(2) assms(3) assms(4)])
qed

subsection \<open>Contacts that do not touch the blade\<close>

text \<open>
  Claim C5. A contact neither of whose element ids is one of the blade's collision element
  ids writes nothing and raises nothing; the tick proceeds as if the contact were not in the
  list.
\<close>

theorem non_blade_contact_ignored:
  assumes "element_id_1 c \<notin> set (cutting_body_ids g)"
    and "element_id_2 c \<notin> set (cutting_body_ids g)"
  shows "publish_contact g x c = (g, [], None) \<and>
         DoPublish g x (cs @ c # cs') = DoPublish g x (cs @ cs')"
proof -
  from assms have "select_cut g c = None" by (simp add: select_cut_def)
  then have skip: "publish_contact g x c = (g, [], None)" by (rule publish_contact_skip)
  then show ?thesis by (simp add: DoPublish_def publish_loop_drop)
qed

theorem non_blade_contact_ignored_witness:
  "element_id_1 (contact 20 30 (Vec3 0 0 7) (Vec3 1 2 3)) \<notin> set (cutting_body_ids blade_and_block) \<and>
   element_id_2 (contact 20 30 (Vec3 0 0 7) (Vec3 1 2 3)) \<notin> set (cutting_body_ids blade_and_block) \<and>
   outcome (DoPublish blade_and_block [3 / 4, 0]
     [contact 10 20 (Vec3 0 0 (- 50)) (Vec3 (1 / 10) 0 (3 / 4)), contact 20 30 (Vec3 0 0 7) (Vec3 1 2 3)])
   = (report 20 (Vec3 0 0 (- 50)) (Vec3 (1 / 10) 0 0) 1, None)"
proof -
  have h1: "element_id_1 (contact 20 30 (Vec3 0 0 7) (Vec3 1 2 3)) \<notin> set (cutting_body_ids blade_and_block)"
    by (simp add: contact_def blade_and_block_def demo_guard_def)
  have h2: "element_id_2 (contact 20 30 (Vec3 0 0 7) (Vec3 1 2 3)) \<notin> set (cutting_body_ids blade_and_block)"
    by (simp add: contact_def blade_and_block_def demo_guard_def)
  have one: "outcome (DoPublish blade_and_block [3 / 4, 0]
      [contact 10 20 (Vec3 0 0 (- 50)) (Vec3 (1 / 10) 0 (3 / 4))])
      = (report 20 (Vec3 0 0 (- 50)) (Vec3 (1 / 10) 0 0) 1, None)"
    by (simp add: outcome_def DoPublish_def publish_contact_def select_cut_def contact_def
        blade_and_block_def demo_guard_def demo_tree_def blade_transform_def slide_tf_def
        translation_def report_def)
  from non_blade_contact_ignored [OF h1 h2, of "[3 / 4, 0]"
      "[contact 10 20 (Vec3 0 0 (- 50)) (Vec3 (1 / 10) 0 (3 / 4))]" "[]"]
  have "DoPublish blade_and_block [3 / 4, 0]
     [contact 10 20 (Vec3 0 0 (- 50)) (Vec3 (1 / 10) 0 (3 / 4)), contact 20 30 (Vec3 0 0 7) (Vec3 1 2 3)]
     = DoPublish blade_and_block [3 / 4, 0] [contact 10 20 (Vec3 0 0 (- 50)) (Vec3 (1 / 10) 0 (3 / 4))]"
    by simp
  with h1 h2 one show ?thesis by simp
qed

subsection \<open>The handler leaves the guard alone\<close>

text \<open>
  Claim C8. The guard after a call of the handler is the guard before it, whatever the call
  wrote or raised: the dictionary, the blade's element ids, the blade points, the threshold
  and every other field are unchanged. Hence what a call writes and raises is the same
  after any earlier call as on the guard as constructed: it is a function of the state
  vector, the contacts and the configuration.
\<close>

theorem guard_unchanged_and_stateless:
  "fst (DoPublish g x cs) = g \<and>
   outcome (DoPublish (fst (DoPublish g x1 cs1)) x2 cs2) = outcome (DoPublish g x2 cs2)"
  by (simp add: DoPublish_def publish_loop_guard)

subsection \<open>Velocities do not matter\<close>

text \<open>
  Claim C10. Two state vectors with the same first \<open>num_positions\<close> entries give the
  same result on the same contacts, however they differ afterwards.
\<close>

theorem output_depends_on_positions_only:
  "take (num_positions (rbt g)) x = take (num_positions (rbt g)) x' \<Longrightarrow>
   DoPublish g x cs = DoPublish g x' cs"
  unfolding DoPublish_def by (rule publish_loop_positions)

theorem output_depends_on_positions_only_witness:
  "take (num_positions (rbt blade_and_block)) [3 / 4, 0] =
     take (num_positions (rbt blade_and_block)) [3 / 4, 9] \<and>
   DoPublish blade_and_block [3 / 4, 0] [contact 10 20 (Vec3 0 0 (- 50)) (Vec3 (1 / 10) 0 (3 / 4))] =
     DoPublish blade_and_block [3 / 4, 9] [contact 10 20 (Vec3 0 0 (- 50)) (Vec3 (1 / 10) 0 (3 / 4))]"
proof -
  have h: "take (num_positions (rbt blade_and_block)) [3 / 4, 0] =
      take (num_positions (rbt blade_and_block)) [3 / 4, 9]"
    by (simp add: blade_and_block_def demo_guard_def demo_tree_def)
  from h output_depends_on_positions_only [OF h] show ?thesis by blast
qed

subsection \<open>A struck element numbered 0\<close>

text \<open>
  Claim C9. When exactly one element of a contact is a blade element and the other element's
  id is 0, the test of line 67 is false: nothing is written for the contact, nothing is
  raised, and the tick proceeds as if the contact were not in the list. For an integer id, 0
  is the only value that the test takes for false.
\<close>

theorem zero_struck_id_dropped:
  assumes "(element_id_1 c \<in> set (cutting_body_ids g) \<and> element_id_2 c \<notin> set (cutting_body_ids g)
              \<and> element_id_2 c = 0)
         \<or> (element_id_2 c \<in> set (cutting_body_ids g) \<and> element_id_1 c \<notin> set (cutting_body_ids g)
              \<and> element_id_1 c = 0)"
  shows "publish_contact g x c = (g, [], None) \<and>
         DoPublish g x (cs @ c # cs') = DoPublish g x (cs @ cs')"
proof -
  from assms have "\<exists>f. select_cut g c = Some (0, f)"
    by (auto simp add: select_cut_def)
  then obtain f where "select_cut g c = Some (0, f)" ..
  then have skip: "publish_contact g x c = (g, [], None)" by (rule publish_contact_zero)
  have "publish_loop g x (cs @ c # cs') = publish_loop g x (cs @ cs')"
    by (rule publish_loop_drop [OF skip])
  with skip show ?thesis by (simp add: DoPublish_def)
qed

theorem zero_struck_id_dropped_witness:
  "element_id_1 (contact 10 0 (Vec3 0 0 (- 50)) (Vec3 (1 / 10) 0 (3 / 4))) \<in> set (cutting_body_ids blade_and_zero_block) \<and>
   element_id_2 (contact 10 0 (Vec3 0 0 (- 50)) (Vec3 (1 / 10) 0 (3 / 4))) \<notin> set (cutting_body_ids blade_and_zero_block) \<and>
   element_id_2 (contact 10 0 (Vec3 0 0 (- 50)) (Vec3 (1 / 10) 0 (3 / 4))) = 0 \<and>
   publish_contact blade_and_zero_block [3 / 4, 0] (contact 10 0 (Vec3 0 0 (- 50)) (Vec3 (1 / 10) 0 (3 / 4)))
     = (blade_and_zero_block, [], None)"
proof -
  have h: "element_id_1 (contact 10 0 (Vec3 0 0 (- 50)) (Vec3 (1 / 10) 0 (3 / 4))) \<in> set (cutting_body_ids blade_and_zero_block) \<and>
   element_id_2 (contact 10 0 (Vec3 0 0 (- 50)) (Vec3 (1 / 10) 0 (3 / 4))) \<notin> set (cutting_body_ids blade_and_zero_block) \<and>
   element_id_2 (contact 10 0 (Vec3 0 0 (- 50)) (Vec3 (1 / 10) 0 (3 / 4))) = 0"
    by (simp add: contact_def blade_and_zero_block_def demo_guard_def)
  from h zero_struck_id_dropped [OF disjI1, OF h, of "[3 / 4, 0]" "[]" "[]"]
  show ?thesis by blast
qed

subsection \<open>Force and point in the blade frame\<close>



subsection \<open>Reporting without a threshold\<close>

text \<open>
  The handler never reads the cut direction or the minimum cut force: replacing them changes
  nothing in what a tick writes or raises (\<open>thresholds_never_read\<close>), and the constructor
  stores both as given (\<open>constructor_stores_configuration\<close>). A contact with a nonzero
  struck id in the dictionary that the tick reaches is reported at its place in the
  output, whatever the other contacts of the tick are (\<open>reached_contact_is_reported\<close>).

  Claim C6 asks that every qualifying blade contact be reported, whatever the threshold.
  The handler does not report the contact whose struck element has id 0. Take a blade and
  two blocks, the first block's element numbered 0 and registered to body 1, constructed
  with the minimum cut force 0 and the cut direction along the force. In a tick with the
  contact of blade element 10 and element 0 followed by two contacts of blade element 10 and
  element 20, the two contacts with element 20 are both reported, and the contact with
  element 0 is not.
\<close>

theorem zero_struck_contact_filtered_out:
  "CuttingGuard_init (demo_tree [[10, 11], [0], [20]]) 0 (Vec3 0 0 0) (Vec3 1 0 0)
      (Vec3 0 0 (- 1)) 0 (1 / 100)
     = Inr (blade_and_two_blocks\<lparr> cut_direction := Vec3 0 0 (- 1), min_cut_force := 0 \<rparr>) \<and>
   element_id_1 (contact 10 0 (Vec3 0 0 (- 50)) (Vec3 (1 / 10) 0 (3 / 4)))
     \<in> set (cutting_body_ids blade_and_two_blocks) \<and>
   element_id_2 (contact 10 0 (Vec3 0 0 (- 50)) (Vec3 (1 / 10) 0 (3 / 4)))
     \<notin> set (cutting_body_ids blade_and_two_blocks) \<and>
   collision_id_to_body_index_map blade_and_two_blocks 0 = Some 1 \<and>
   collision_id_to_body_index_map blade_and_two_blocks 20 = Some 2 \<and>
   outcome (DoPublish (blade_and_two_blocks\<lparr> cut_direction := Vec3 0 0 (- 1), min_cut_force := 0 \<rparr>)
      [3 / 4, 0]
      [contact 10 0 (Vec3 0 0 (- 50)) (Vec3 (1 / 10) 0 (3 / 4)),
       contact 10 20 (Vec3 0 0 (- 50)) (Vec3 (1 / 10) 0 (3 / 4)),
       contact 10 20 (Vec3 0 0 (- 50)) (Vec3 (1 / 10) 0 (3 / 4))])
     = ([GotPotentialCut 20 (Vec3 0 0 (- 50)) (Vec3 (1 / 10) 0 0), AndCutBodyIndex, BodyIndex 2,
         GotPotentialCut 20 (Vec3 0 0 (- 50)) (Vec3 (1 / 10) 0 0), AndCutBodyIndex, BodyIndex 2],
        None)"
  by (simp add: CuttingGuard_init_def get_num_bodies_def outcome_def DoPublish_def
      publish_contact_def select_cut_def contact_def blade_and_two_blocks_def demo_guard_def
      demo_tree_def blade_transform_def slide_tf_def translation_def report_def)

subsection \<open>The struck body of a contact with one blade element\<close>

text \<open>
  For a contact with exactly one blade element whose other element has a nonzero id in the
  dictionary, the body index written is the dictionary's entry for that element
  (\<open>struck_body_is_registry_entry\<close>).

  Claim C1 asks this of every contact with exactly one blade element. The handler does not
  do it when the other element's id is 0: with the block's element numbered 0 and registered
  to body 1, the contact of element 0 with blade element 11 is not looked up, and the tick
  writes nothing.
\<close>

theorem struck_zero_not_resolved:
  "element_id_1 (contact 0 11 (Vec3 0 0 50) (Vec3 (1 / 10) 0 (3 / 4))) \<notin> set (cutting_body_ids blade_and_zero_block) \<and>
   element_id_2 (contact 0 11 (Vec3 0 0 50) (Vec3 (1 / 10) 0 (3 / 4))) \<in> set (cutting_body_ids blade_and_zero_block) \<and>
   collision_id_to_body_index_map blade_and_zero_block
      (element_id_1 (contact 0 11 (Vec3 0 0 50) (Vec3 (1 / 10) 0 (3 / 4)))) = Some 1 \<and>
   outcome (DoPublish blade_and_zero_block [3 / 4, 0]
      [contact 0 11 (Vec3 0 0 50) (Vec3 (1 / 10) 0 (3 / 4))]) = ([], None)"
  by (simp add: outcome_def DoPublish_def publish_contact_def select_cut_def contact_def
      blade_and_zero_block_def demo_guard_def)

subsection \<open>Struck elements missing from the dictionary\<close>

text \<open>
  A struck element with a nonzero id that is missing from the dictionary raises
  \<open>KeyError\<close> at line 75, and the contacts after it are not processed
  (\<open>unknown_element_aborts_tick\<close>).

  Claim C7 asks this of every contact with exactly one blade element. The handler does not
  raise when the missing id is 0: the contact of blade element 10 with the unregistered
  element 0 is passed over without an error and the tick goes on to the next contact, while
  the same contact with the unregistered element 999 raises.
\<close>

theorem unregistered_zero_not_raised:
  "element_id_1 (contact 10 0 (Vec3 0 0 (- 50)) (Vec3 (1 / 10) 0 (3 / 4))) \<in> set (cutting_body_ids blade_and_block) \<and>
   element_id_2 (contact 10 0 (Vec3 0 0 (- 50)) (Vec3 (1 / 10) 0 (3 / 4))) \<notin> set (cutting_body_ids blade_and_block) \<and>
   collision_id_to_body_index_map blade_and_block 0 = None \<and>
   outcome (DoPublish blade_and_block [3 / 4, 0]
      [contact 10 0 (Vec3 0 0 (- 50)) (Vec3 (1 / 10) 0 (3 / 4)),
       contact 10 20 (Vec3 0 0 (- 50)) (Vec3 (1 / 10) 0 (3 / 4))])
     = (report 20 (Vec3 0 0 (- 50)) (Vec3 (1 / 10) 0 0) 1, None) \<and>
   collision_id_to_body_index_map blade_and_block 999 = None \<and>
   outcome (DoPublish blade_and_block [3 / 4, 0]
      [contact 10 999 (Vec3 0 0 (- 50)) (Vec3 (1 / 10) 0 (3 / 4)),
       contact 10 20 (Vec3 0 0 (- 50)) (Vec3 (1 / 10) 0 (3 / 4))])
     = ([GotPotentialCut 999 (Vec3 0 0 (- 50)) (Vec3 (1 / 10) 0 0), AndCutBodyIndex],
        Some (KeyError 999))"
  by (simp add: outcome_def DoPublish_def publish_contact_def select_cut_def contact_def
      blade_and_block_def demo_guard_def demo_tree_def blade_transform_def slide_tf_def
      translation_def report_def)

subsection \<open>Contacts between two blade elements\<close>

text \<open>
  Claim C2 says that a contact whose two elements both belong to the blade is skipped. It is
  not: line 61 takes the first branch, and the contact of blade elements 10 and 11 is
  reported with element 11 as the struck element and the blade itself, body 0, as the
  struck body.
\<close>

theorem self_contact_reported_counterexample:
  "element_id_1 (contact 10 11 (Vec3 0 0 (- 50)) (Vec3 (1 / 10) 0 (3 / 4))) \<in> set (cutting_body_ids blade_and_block) \<and>
   element_id_2 (contact 10 11 (Vec3 0 0 (- 50)) (Vec3 (1 / 10) 0 (3 / 4))) \<in> set (cutting_body_ids blade_and_block) \<and>
   outcome (DoPublish blade_and_block [3 / 4, 0]
      [contact 10 11 (Vec3 0 0 (- 50)) (Vec3 (1 / 10) 0 (3 / 4))])
     = (report 11 (Vec3 0 0 (- 50)) (Vec3 (1 / 10) 0 0) 0, None) \<and>
   fst (outcome (DoPublish blade_and_block [3 / 4, 0]
      [contact 10 11 (Vec3 0 0 (- 50)) (Vec3 (1 / 10) 0 (3 / 4))])) \<noteq> []"
  by (simp add: outcome_def DoPublish_def publish_contact_def select_cut_def contact_def
      blade_and_block_def demo_guard_def demo_tree_def blade_transform_def slide_tf_def
      translation_def report_def)

text \<open>
  Claim C2, as the handler has it. A contact whose two elements both belong to the blade is
  handled by the first branch: the second element is the struck element and the force is
  taken as given. When the second element's id is nonzero and in the dictionary, the
  contact is reported with the dictionary's body index for it.
\<close>

theorem self_contact_reported:
  assumes "element_id_1 c \<in> set (cutting_body_ids g)"
    and "element_id_2 c \<in> set (cutting_body_ids g)"
    and "element_id_2 c \<noteq> 0"
    and "collision_id_to_body_index_map g (element_id_2 c) = Some k"
  shows "publish_contact g x c =
     (g, report (element_id_2 c) (rot_dot (blade_transform g x) (force c))
           (vadd (rot_dot (blade_transform g x) (application_point c))
                 (translation (blade_transform g x))) k, None)"
proof -
  from assms(1) have "select_cut g c = Some (element_id_2 c, force c)"
    by (simp add: select_cut_def)
  from publish_contact_report [OF this assms(3) assms(4)] show ?thesis .
qed

theorem self_contact_reported_witness:
  "element_id_1 (contact 11 10 (Vec3 2 0 0) (Vec3 0 1 (3 / 4))) \<in> set (cutting_body_ids blade_and_block) \<and>
   element_id_2 (contact 11 10 (Vec3 2 0 0) (Vec3 0 1 (3 / 4))) \<in> set (cutting_body_ids blade_and_block) \<and>
   element_id_2 (contact 11 10 (Vec3 2 0 0) (Vec3 0 1 (3 / 4))) \<noteq> 0 \<and>
   collision_id_to_body_index_map blade_and_block
      (element_id_2 (contact 11 10 (Vec3 2 0 0) (Vec3 0 1 (3 / 4)))) = Some 0 \<and>
   publish_contact blade_and_block [3 / 4, 0] (contact 11 10 (Vec3 2 0 0) (Vec3 0 1 (3 / 4)))
     = (blade_and_block, report 10 (Vec3 2 0 0) (Vec3 0 1 0) 0, None)"
proof -
  let ?c = "contact 11 10 (Vec3 2 0 0) (Vec3 0 1 (3 / 4))"
  have h1: "element_id_1 ?c \<in> set (cutting_body_ids blade_and_block)"
    by (simp add: contact_def blade_and_block_def demo_guard_def)
  have h2: "element_id_2 ?c \<in> set (cutting_body_ids blade_and_block)"
    by (simp add: contact_def blade_and_block_def demo_guard_def)
  have h3: "element_id_2 ?c \<noteq> 0" by (simp add: contact_def)
  have h4: "collision_id_to_body_index_map blade_and_block (element_id_2 ?c) = Some 0"
    by (simp add: contact_def blade_and_block_def demo_guard_def)
  have tf: "blade_transform blade_and_block [3 / 4, 0] = slide_tf [3 / 4]"
    by (simp add: blade_transform_def blade_and_block_def demo_guard_def demo_tree_def)
  from self_contact_reported [OF h1 h2 h3 h4, of "[3 / 4, 0]"]
  have "publish_contact blade_and_block [3 / 4, 0] ?c
     = (blade_and_block, report 10 (Vec3 2 0 0) (Vec3 0 1 0) 0, None)"
    by (simp add: tf slide_tf_def translation_def contact_def)
  with h1 h2 h3 h4 show ?thesis by blast
qed

subsection \<open>Orientation of the force\<close>

text \<open>
  Claim C3 says that swapping the two elements of any contact negates the oriented force.
  For a contact between two blade elements it does not: both orders take the first branch
  and keep the force as given.
\<close>

theorem swap_of_self_contact_counterexample:
  "map_option snd (select_cut blade_and_block (contact 10 11 (Vec3 0 0 (- 50)) (Vec3 (1 / 10) 0 (3 / 4))))
     = Some (Vec3 0 0 (- 50)) \<and>
   map_option snd (select_cut blade_and_block
      (swap_elements (contact 10 11 (Vec3 0 0 (- 50)) (Vec3 (1 / 10) 0 (3 / 4)))))
     = Some (Vec3 0 0 (- 50)) \<and>
   vneg (Vec3 0 0 (- 50)) \<noteq> Vec3 0 0 (- 50)"
  by (simp add: select_cut_def swap_elements_def contact_def blade_and_block_def demo_guard_def)

text \<open>
  Claim C3, for contacts whose two elements are not both blade elements. The force is taken
  as given when the first element is the blade's and negated when the second is. Swapping
  the two elements and keeping the force vector names the same struck element and negates
  the oriented force, which keeps its magnitude; when neither element is the blade's there
  is no oriented force in either order.
\<close>

theorem swapping_negates_oriented_force:
  assumes "element_id_1 c \<notin> set (cutting_body_ids g) \<or> element_id_2 c \<notin> set (cutting_body_ids g)"
  shows "(element_id_1 c \<in> set (cutting_body_ids g) \<longrightarrow>
            select_cut g c = Some (element_id_2 c, force c)) \<and>
         (element_id_2 c \<in> set (cutting_body_ids g) \<longrightarrow>
            select_cut g c = Some (element_id_1 c, vneg (force c))) \<and>
         map_option fst (select_cut g (swap_elements c)) = map_option fst (select_cut g c) \<and>
         map_option snd (select_cut g (swap_elements c))
           = map_option (\<lambda>sf. vneg (snd sf)) (select_cut g c) \<and>
         norm_sq (vneg (force c)) = norm_sq (force c)"
  using assms
  by (auto simp add: select_cut_def swap_elements_def vneg_vneg norm_sq_vneg)

theorem swapping_negates_oriented_force_witness:
  "element_id_2 (contact 10 20 (Vec3 0 0 (- 50)) (Vec3 (1 / 10) 0 (3 / 4))) \<notin> set (cutting_body_ids blade_and_block) \<and>
   select_cut blade_and_block (contact 10 20 (Vec3 0 0 (- 50)) (Vec3 (1 / 10) 0 (3 / 4)))
     = Some (20, Vec3 0 0 (- 50)) \<and>
   map_option snd (select_cut blade_and_block
      (swap_elements (contact 10 20 (Vec3 0 0 (- 50)) (Vec3 (1 / 10) 0 (3 / 4)))))
     = Some (Vec3 0 0 50)"
proof -
  let ?c = "contact 10 20 (Vec3 0 0 (- 50)) (Vec3 (1 / 10) 0 (3 / 4))"
  have h: "element_id_2 ?c \<notin> set (cutting_body_ids blade_and_block)"
    by (simp add: contact_def blade_and_block_def demo_guard_def)
  have s: "select_cut blade_and_block ?c = Some (20, Vec3 0 0 (- 50))"
    by (simp add: select_cut_def contact_def blade_and_block_def demo_guard_def)
  from swapping_negates_oriented_force [OF disjI2, OF h]
  have "map_option snd (select_cut blade_and_block (swap_elements ?c))
      = map_option (\<lambda>sf. vneg (snd sf)) (select_cut blade_and_block ?c)" by blast
  with h s show ?thesis by simp
qed

end
